theory Spec2Isabelle
  imports Main "HOL-Library.Finite_Map"
begin

section \<open>Values, documents and errors\<close>

text \<open>
  A metadata statement is a Python mapping from claim names to JSON-compatible values.
  Python compares dictionaries without regard to order, so a dictionary is a finite map.
  Numbers are kept as integers; no operation below computes with them.
\<close>

datatype jval =
    JNull
  | JBool bool
  | JNum int
  | JStr string
  | JArr "jval list"
  | JObj "(string, jval) fmap"

type_synonym doc = "(string, jval) fmap"

text \<open>The exceptions the module raises or lets through, as values.\<close>

datatype pyerror =
    KeyError string
  | ValueError string
  | TypeError
  | AttributeError
  | AssertionError
  | SigningServiceError string
  | JWSException string
  | ExternalError string

text \<open>\<^verbatim>\<open>obj[key]\<close> with a string key.\<close>

fun getitem :: "jval \<Rightarrow> string \<Rightarrow> pyerror + jval" where
  "getitem (JObj d) k = (case fmlookup d k of None \<Rightarrow> Inl (KeyError k) | Some v \<Rightarrow> Inr v)"
| "getitem _ k = Inl TypeError"

text \<open>\<^verbatim>\<open>obj[key] = v\<close> with a string key: only a dictionary accepts it.\<close>

fun setitem :: "jval \<Rightarrow> string \<Rightarrow> jval \<Rightarrow> pyerror + jval" where
  "setitem (JObj d) k v = Inr (JObj (fmupd k v d))"
| "setitem _ k v = Inl TypeError"

text \<open>\<^verbatim>\<open>s.startswith(p)\<close>\<close>

definition startswith :: "string \<Rightarrow> string \<Rightarrow> bool" where
  "startswith s p = (take (length p) s = p)"

section \<open>The signing service as the Signer sees it\<close>

text \<open>
  The Signer uses two members of its signing service: the attribute \<^verbatim>\<open>iss\<close> and the
  method \<^verbatim>\<open>create(req)\<close>, whose result is a dictionary with the key \<^verbatim>\<open>sms\<close> (and
  \<^verbatim>\<open>loc\<close> for the web client). Both services of the module leave \<^verbatim>\<open>req\<close> as it is:
  the internal one signs a deep copy (line 79), the web client posts a serialisation
  (line 168). What a service answers is a function of the document it is given.
\<close>

record signed =
  sms :: string
  loc :: "string option"

record backend =
  iss :: string
  create :: "doc \<Rightarrow> pyerror + signed"

text \<open>
  What a call leaves behind outside its return value: the documents handed to
  \<^verbatim>\<open>signing_service.create\<close>, in call order, and the records written with
  \<^verbatim>\<open>logger.error\<close>.
\<close>

datatype log_entry =
    SignerItems string "(string, string list) fmap"
  | NoStatementsForContext string

record world =
  calls :: "doc list"
  logged :: "log_entry list"

text \<open>
  \<^verbatim>\<open>self.signing_service.create(req)\<close>; the constructor's default service is
  \<^verbatim>\<open>None\<close>, on which the attribute access raises AttributeError.
\<close>

definition service_create ::
    "backend option \<Rightarrow> doc \<Rightarrow> world \<Rightarrow> (pyerror + signed) \<times> world" where
  "service_create ss req w =
     (case ss of
        None \<Rightarrow> (Inl AttributeError, w)
      | Some b \<Rightarrow> (create b req, w\<lparr>calls := calls w @ [req]\<rparr>))"

definition service_iss :: "backend option \<Rightarrow> pyerror + string" where
  "service_iss ss = (case ss of None \<Rightarrow> Inl AttributeError | Some b \<Rightarrow> Inr (iss b))"

section \<open>The Signer\<close>

text \<open>
  Modelled from the spec: the class \<^verbatim>\<open>FileSystem\<close> of \<^verbatim>\<open>fedoicmsg.file_system\<close> is
  not part of the sources at hand. A per-context statement store is taken as the spec
  describes the StatementStore collaborator: \<^verbatim>\<open>get(context, foId)\<close> gives a string or
  nothing, \<^verbatim>\<open>keys(context)\<close> the FO ids. It is a list of (FO id, value) pairs: the list
  order is the order in which \<^verbatim>\<open>keys()\<close> yields, lookup takes the pair of a key, and
  the store equals \<^verbatim>\<open>{}\<close> exactly when it has no pair.
\<close>

type_synonym store = "(string \<times> string) list"

record signer =
  signing_service :: "backend option"
  metadata_statements :: "(string, store) fmap"
  def_context :: string

text \<open>The dictionary literal the Signer compares its stores with (lines 292 and 379).\<close>

definition NO_SUPERIOR :: "(string, store) fmap" where
  "NO_SUPERIOR = fmupd ''register'' [] (fmupd ''discovery'' [] (fmupd ''response'' [] fmempty))"

definition items :: "signer \<Rightarrow> (string, string list) fmap" where
  "items self = fmmap (map fst) (metadata_statements self)"

text \<open>
  \<^verbatim>\<open>if not context: context = self.def_context\<close>, the first statement of the three
  methods below.
\<close>

definition resolve_context :: "signer \<Rightarrow> string \<Rightarrow> string" where
  "resolve_context self context = (if context = [] then def_context self else context)"

definition metadata_statement_fos :: "signer \<Rightarrow> string \<Rightarrow> string list" where
  "metadata_statement_fos self context0 =
     (let context = resolve_context self context0
      in case fmlookup (metadata_statements self) context of
           Some cms \<Rightarrow> map fst cms
         | None \<Rightarrow> [])"

text \<open>\<^verbatim>\<open>if fos is None: fos = list(cms.keys())\<close> (lines 316-317 and 391-392).\<close>

definition fo_list :: "store \<Rightarrow> string list option \<Rightarrow> string list" where
  "fo_list cms fos = (case fos of None \<Rightarrow> map fst cms | Some fs \<Rightarrow> fs)"

text \<open>What \<^verbatim>\<open>create_signed_metadata_statement\<close> gives back: None, a dictionary of signed
  statements, or (single mode) one signed statement.\<close>

datatype ret = RNone | RMap "(string, string) fmap" | RStr string

text \<open>Lines 296-297 and 313-314: no superior, the entity signs its own request.\<close>

definition sign_as_fo :: "signer \<Rightarrow> doc \<Rightarrow> world \<Rightarrow> (pyerror + ret) \<times> doc \<times> world" where
  "sign_as_fo self req w =
     (case service_create (signing_service self) req w of
        (Inl e, w') \<Rightarrow> (Inl e, req, w')
      | (Inr res, w') \<Rightarrow>
          (case service_iss (signing_service self) of
             Inl e \<Rightarrow> (Inl e, req, w')
           | Inr i \<Rightarrow> (Inr (RMap (fmupd i (sms res) fmempty)), req, w')))"

text \<open>Which claim a stored value goes under (lines 326, 346, 400).\<close>

definition attr_of :: "string \<Rightarrow> string" where
  "attr_of val =
     (if startswith val ''http'' then ''metadata_statement_uris'' else ''metadata_statements'')"

text \<open>
  Lines 327-335 for one FO:
  \<^verbatim>\<open>try: req[attr][f] = val
except KeyError: req[attr] = {f: val}\<close>
  A claim that is there and is no dictionary makes the item assignment raise TypeError.
\<close>

definition add_entry :: "string \<Rightarrow> string \<Rightarrow> string \<Rightarrow> doc \<Rightarrow> pyerror + doc" where
  "add_entry attr f val req =
     (case fmlookup req attr of
        None \<Rightarrow> Inr (fmupd attr (JObj (fmupd f (JStr val) fmempty)) req)
      | Some d \<Rightarrow>
          (case setitem d f (JStr val) of
             Inl e \<Rightarrow> Inl e
           | Inr d' \<Rightarrow> Inr (fmupd attr d' req)))"

text \<open>The loop of lines 320-335; the document comes back as the loop left it.\<close>

fun single_loop :: "store \<Rightarrow> string list \<Rightarrow> doc \<Rightarrow> doc \<times> pyerror option" where
  "single_loop cms [] req = (req, None)"
| "single_loop cms (f # fs) req =
     (case map_of cms f of
        None \<Rightarrow> single_loop cms fs req
      | Some val \<Rightarrow>
          (case add_entry (attr_of val) f val req of
             Inl e \<Rightarrow> (req, Some e)
           | Inr req' \<Rightarrow> single_loop cms fs req'))"

text \<open>The loop of lines 340-353, with the dictionary \<^verbatim>\<open>_sms\<close> as accumulator.\<close>

fun fanout_loop ::
    "backend option \<Rightarrow> store \<Rightarrow> string list \<Rightarrow> doc \<Rightarrow> (string, string) fmap \<Rightarrow> world
      \<Rightarrow> pyerror option \<times> doc \<times> (string, string) fmap \<times> world" where
  "fanout_loop ss cms [] req acc w = (None, req, acc, w)"
| "fanout_loop ss cms (f # fs) req acc w =
     (case map_of cms f of
        None \<Rightarrow> fanout_loop ss cms fs req acc w
      | Some val \<Rightarrow>
          (let req1 = fmupd (attr_of val) (JObj (fmupd f (JStr val) fmempty)) req
           in case service_create ss req1 w of
                (Inl e, w') \<Rightarrow> (Some e, req1, acc, w')
              | (Inr res, w') \<Rightarrow>
                  fanout_loop ss cms fs (fmdrop (attr_of val) req1) (fmupd f (sms res) acc) w'))"

definition create_signed_metadata_statement ::
    "signer \<Rightarrow> doc \<Rightarrow> string \<Rightarrow> string list option \<Rightarrow> bool \<Rightarrow> world
      \<Rightarrow> (pyerror + ret) \<times> doc \<times> world" where
  "create_signed_metadata_statement self req context0 fos0 single w =
     (let context = resolve_context self context0
      in if metadata_statements self = fmempty then (Inr RNone, req, w)
         else
           (case fmlookup (metadata_statements self) context of
              None \<Rightarrow>
                if metadata_statements self = NO_SUPERIOR then sign_as_fo self req w
                else
                  (case service_iss (signing_service self) of
                     Inl _ \<Rightarrow>
                       (Inl (SigningServiceError ''This signer can not sign for that context''),
                        req, w)
                   | Inr i \<Rightarrow>
                       (Inl (KeyError context), req,
                        w\<lparr>logged := logged w @
                             [SignerItems i (items self), NoStatementsForContext context]\<rparr>))
            | Some cms \<Rightarrow>
                if cms = [] then sign_as_fo self req w
                else
                  (let fos = fo_list cms fos0
                   in if single then
                        (case single_loop cms fos req of
                           (req', Some e) \<Rightarrow> (Inl e, req', w)
                         | (req', None) \<Rightarrow>
                             (case service_create (signing_service self) req' w of
                                (Inl e, w') \<Rightarrow> (Inl e, req', w')
                              | (Inr res, w') \<Rightarrow>
                                  if fos \<noteq> [] \<and> sms res = []
                                  then (Inl (KeyError ''No metadata statements matched''), req', w')
                                  else (Inr (RStr (sms res)), req', w')))
                      else
                        (case fanout_loop (signing_service self) cms fos req fmempty w of
                           (Some e, req', acc, w') \<Rightarrow> (Inl e, req', w')
                         | (None, req', acc, w') \<Rightarrow>
                             if fos \<noteq> [] \<and> acc = fmempty
                             then (Inl (KeyError ''No metadata statements matched''), req', w')
                             else (Inr (RMap acc), req', w')))))"



text \<open>
  The constructor (lines 215-235). \<^verbatim>\<open>CONTEXTS\<close> and \<^verbatim>\<open>MIN_SET\<close> are imported from the
  package's \<^verbatim>\<open>__init__\<close>, which is not part of the sources at hand: they are parameters,
  like the file system (\<^verbatim>\<open>os.listdir\<close>, \<^verbatim>\<open>os.path.isdir\<close>, and the store that
  \<^verbatim>\<open>FileSystem(_dir, ...)\<close> reads from a directory).
\<close>

datatype ms_dir = MsNone | MsDict "(string \<times> string) list" | MsPath string

record fs_env =
  listdir :: "string \<Rightarrow> pyerror + string list"
  isdir :: "string \<Rightarrow> bool"
  FileSystem :: "string \<Rightarrow> store"

text \<open>\<^verbatim>\<open>os.path.join(a, b)\<close> on POSIX, two components.\<close>

definition path_join :: "string \<Rightarrow> string \<Rightarrow> string" where
  "path_join a b =
     (if startswith b ''/'' then b
      else if a = [] \<or> last a = CHR ''/'' then a @ b
      else a @ ''/'' @ b)"

fun init_from_dict ::
    "string list \<Rightarrow> fs_env \<Rightarrow> (string \<times> string) list \<Rightarrow> (string, store) fmap
      \<Rightarrow> pyerror + (string, store) fmap" where
  "init_from_dict CONTEXTS fs [] ms = Inr ms"
| "init_from_dict CONTEXTS fs ((key, dir) # rest) ms =
     (if key \<notin> set CONTEXTS then Inl (ValueError (key @ '' not expected operation''))
      else init_from_dict CONTEXTS fs rest (fmupd key (FileSystem fs dir) ms))"

fun init_from_listing ::
    "string list \<Rightarrow> fs_env \<Rightarrow> string \<Rightarrow> string list \<Rightarrow> (string, store) fmap
      \<Rightarrow> pyerror + (string, store) fmap" where
  "init_from_listing CONTEXTS fs ms_dir [] ms = Inr ms"
| "init_from_listing CONTEXTS fs ms_dir (item # rest) ms =
     (if item \<notin> set CONTEXTS then Inl (ValueError (item @ '' not expected operation''))
      else
        (let dir = path_join ms_dir item
         in if isdir fs dir
            then init_from_listing CONTEXTS fs ms_dir rest (fmupd item (FileSystem fs dir) ms)
            else init_from_listing CONTEXTS fs ms_dir rest ms))"

definition Signer_init ::
    "string list \<Rightarrow> (string, store) fmap \<Rightarrow> fs_env \<Rightarrow> backend option \<Rightarrow> ms_dir \<Rightarrow> string
      \<Rightarrow> pyerror + signer" where
  "Signer_init CONTEXTS MIN_SET fs service msd context =
     (let built =
        (case msd of
           MsDict kvs \<Rightarrow> init_from_dict CONTEXTS fs kvs fmempty
         | MsPath p \<Rightarrow>
             if p \<noteq> [] then
               (case listdir fs p of
                  Inl e \<Rightarrow> Inl e
                | Inr names \<Rightarrow> init_from_listing CONTEXTS fs p names fmempty)
             else Inr MIN_SET
         | MsNone \<Rightarrow> Inr MIN_SET)
      in case built of
           Inl e \<Rightarrow> Inl e
         | Inr ms \<Rightarrow>
             Inr \<lparr>signing_service = service, metadata_statements = ms, def_context = context\<rparr>)"

section \<open>The internal signing service\<close>

text \<open>
  The key jar and \<^verbatim>\<open>JWT.pack\<close> belong to external libraries. Of a key jar only the
  issuers it holds keys for are looked at; \<^verbatim>\<open>pack\<close> is a parameter that receives the
  JWT's settings, the payload, the key owner and the extra keyword arguments.
\<close>

record keyjar =
  issuer_keys :: "(string, string list) fmap"

record internal_signing_service =
  i_iss :: string
  i_signing_keys :: keyjar
  i_add_ons :: doc
  i_alg :: string
  i_lifetime :: int

record jwt =
  jwt_keyjar :: keyjar
  jwt_iss :: string
  jwt_lifetime :: int
  jwt_sign_alg :: string

type_synonym packer = "jwt \<Rightarrow> doc \<Rightarrow> string \<Rightarrow> doc \<Rightarrow> pyerror + string"

text \<open>\<^verbatim>\<open>self.add_ons = add_ons or {}\<close> and the defaults of the constructor (lines 48-62).\<close>

definition InternalSigningService_init ::
    "string \<Rightarrow> keyjar \<Rightarrow> doc option \<Rightarrow> internal_signing_service" where
  "InternalSigningService_init i keys add_ons =
     \<lparr>i_iss = i, i_signing_keys = keys,
      i_add_ons = (case add_ons of None \<Rightarrow> fmempty | Some a \<Rightarrow> a),
      i_alg = ''RS256'', i_lifetime = 3600\<rparr>"

text \<open>
  Lines 79-81: the service's own copy of the request, updated with the add-ons.
  \<^verbatim>\<open>update\<close> stores every add-on under its name, whatever was there.
\<close>

definition signed_payload :: "internal_signing_service \<Rightarrow> doc \<Rightarrow> doc" where
  "signed_payload self req =
     (if i_add_ons self \<noteq> fmempty then req ++\<^sub>f i_add_ons self else req)"

definition InternalSigningService_create ::
    "packer \<Rightarrow> internal_signing_service \<Rightarrow> doc \<Rightarrow> doc \<Rightarrow> pyerror + signed" where
  "InternalSigningService_create pack self req kwargs =
     (let keys = i_signing_keys self;
          metadata = signed_payload self req;
          j = \<lparr>jwt_keyjar = keys, jwt_iss = i_iss self, jwt_lifetime = i_lifetime self,
               jwt_sign_alg = i_alg self\<rparr>;
          owner = (if i_iss self |\<in>| fmdom (issuer_keys keys) then i_iss self else [])
      in case (if kwargs \<noteq> fmempty then pack j metadata owner kwargs
               else pack j metadata owner fmempty) of
           Inl e \<Rightarrow> Inl e
         | Inr token \<Rightarrow> Inr \<lparr>sms = token, loc = None\<rparr>)"

definition internal_backend :: "packer \<Rightarrow> internal_signing_service \<Rightarrow> backend" where
  "internal_backend pack self =
     \<lparr>iss = i_iss self, create = (\<lambda>req. InternalSigningService_create pack self req fmempty)\<rparr>"

section \<open>The web signing service client\<close>

text \<open>
  A response of \<^verbatim>\<open>requests\<close>. Its \<^verbatim>\<open>headers\<close> are a case-insensitive dictionary:
  every field is stored under its lower-cased name, a later field replacing an earlier one
  of the same name, and a lookup lower-cases the key it is given. The fields are kept
  here as (name, value) pairs in the order they were stored. Header names are ASCII.
\<close>

record response =
  status_code :: int
  resp_text :: string
  headers :: "(string \<times> string) list"

definition lower_char :: "char \<Rightarrow> char" where
  "lower_char c =
     (case map_of (zip ''ABCDEFGHIJKLMNOPQRSTUVWXYZ'' ''abcdefghijklmnopqrstuvwxyz'') c of
        Some l \<Rightarrow> l
      | None \<Rightarrow> c)"

definition lower :: "string \<Rightarrow> string" where
  "lower s = map lower_char s"

text \<open>\<^verbatim>\<open>response.headers[key]\<close>; a missing field raises KeyError with the lower-cased key.\<close>

definition headers_getitem :: "(string \<times> string) list \<Rightarrow> string \<Rightarrow> pyerror + string" where
  "headers_getitem hs key =
     (case map_of (rev (map (\<lambda>(k, v). (lower k, v)) hs)) (lower key) of
        None \<Rightarrow> Inl (KeyError (lower key))
      | Some v \<Rightarrow> Inr v)"

record web_signing_service_client =
  w_url :: string
  w_iss :: string
  w_keyjar :: keyjar
  w_token :: string
  w_token_type :: string
  w_verify_ssl_cert :: bool

record req_args =
  verify :: bool
  auth :: "string option"

text \<open>
  The external libraries the client calls: \<^verbatim>\<open>factory\<close> (the payload part of a compact
  JWS, or nothing when the text is no JWS), \<^verbatim>\<open>json.loads\<close>, the key jar's
  \<^verbatim>\<open>get_verify_key\<close>, \<^verbatim>\<open>verify_compact\<close>, and \<^verbatim>\<open>post\<close>, \<^verbatim>\<open>put\<close> and
  \<^verbatim>\<open>get\<close> of \<^verbatim>\<open>requests\<close>.
\<close>

record web_env =
  factory :: "string \<Rightarrow> string option"
  json_loads :: "string \<Rightarrow> pyerror + jval"
  get_verify_key :: "keyjar \<Rightarrow> string \<Rightarrow> pyerror + string list"
  verify_compact :: "string \<Rightarrow> string list \<Rightarrow> pyerror + unit"
  http_post :: "string \<Rightarrow> doc \<Rightarrow> req_args \<Rightarrow> pyerror + response"
  http_put :: "string \<Rightarrow> doc \<Rightarrow> req_args \<Rightarrow> pyerror + response"
  http_get :: "string \<Rightarrow> req_args \<Rightarrow> pyerror + response"

text \<open>\<^verbatim>\<open>str\<close> of an integer, as \<^verbatim>\<open>format\<close> prints the status code.\<close>

fun digits :: "nat \<Rightarrow> string" where
  "digits n =
     (if n < 10 then [''0123456789'' ! n]
      else digits (n div 10) @ [''0123456789'' ! (n mod 10)])"

declare digits.simps [simp del]

definition str_int :: "int \<Rightarrow> string" where
  "str_int i = (if i < 0 then ''-'' @ digits (nat (- i)) else digits (nat i))"

text \<open>
  Lines 128-149, with assertions enabled as Python runs by default. Beside the result,
  the calls of \<^verbatim>\<open>verify_compact\<close> are recorded: the second component extends the list
  of (token, keys) pairs verified so far. The keys are looked up inside the \<^verbatim>\<open>try\<close>
  block, before the call, so an AssertionError of either is turned into JWSException.
\<close>

definition parse_response ::
    "web_env \<Rightarrow> web_signing_service_client \<Rightarrow> response \<Rightarrow> (string \<times> string list) list
      \<Rightarrow> (pyerror + signed) \<times> (string \<times> string list) list" where
  "parse_response env self resp verified =
     (if 200 \<le> status_code resp \<and> status_code resp < 300 then
        (case factory env (resp_text resp) of
           None \<Rightarrow> (Inl AttributeError, verified)
         | Some part1 \<Rightarrow>
             (case json_loads env part1 of
                Inl e \<Rightarrow> (Inl e, verified)
              | Inr body \<Rightarrow>
                  (case getitem body ''iss'' of
                     Inl e \<Rightarrow> (Inl e, verified)
                   | Inr claimed \<Rightarrow>
                       if claimed \<noteq> JStr (w_iss self) then (Inl AssertionError, verified)
                       else
                         (case get_verify_key env (w_keyjar self) (w_iss self) of
                            Inl AssertionError \<Rightarrow>
                              (Inl (JWSException ''JWS signature verification error''), verified)
                          | Inl e \<Rightarrow> (Inl e, verified)
                          | Inr keys \<Rightarrow>
                              (let verified' = verified @ [(resp_text resp, keys)]
                               in case verify_compact env (resp_text resp) keys of
                                    Inl AssertionError \<Rightarrow>
                                      (Inl (JWSException ''JWS signature verification error''),
                                       verified')
                                  | Inl e \<Rightarrow> (Inl e, verified')
                                  | Inr _ \<Rightarrow>
                                      (case headers_getitem (headers resp) ''Location'' of
                                         Inl e \<Rightarrow> (Inl e, verified')
                                       | Inr location \<Rightarrow>
                                           (Inr \<lparr>sms = resp_text resp, loc = Some location\<rparr>,
                                            verified')))))))
      else
        (Inl (SigningServiceError (str_int (status_code resp) @ '': '' @ resp_text resp)),
         verified))"

definition req_args_of :: "web_signing_service_client \<Rightarrow> req_args" where
  "req_args_of self =
     (if w_token self \<noteq> []
      then \<lparr>verify = w_verify_ssl_cert self,
            auth = Some (w_token_type self @ '' '' @ w_token self)\<rparr>
      else \<lparr>verify = w_verify_ssl_cert self, auth = None\<rparr>)"

definition WebSigningServiceClient_create ::
    "web_env \<Rightarrow> web_signing_service_client \<Rightarrow> doc \<Rightarrow> (string \<times> string list) list
      \<Rightarrow> (pyerror + signed) \<times> (string \<times> string list) list" where
  "WebSigningServiceClient_create env self req verified =
     (case http_post env (w_url self) req (req_args_of self) of
        Inl e \<Rightarrow> (Inl e, verified)
      | Inr resp \<Rightarrow> parse_response env self resp verified)"

definition update_metadata_statement ::
    "web_env \<Rightarrow> web_signing_service_client \<Rightarrow> string \<Rightarrow> doc \<Rightarrow> (string \<times> string list) list
      \<Rightarrow> (pyerror + signed) \<times> (string \<times> string list) list" where
  "update_metadata_statement env self location req verified =
     (case http_put env location req (req_args_of self) of
        Inl e \<Rightarrow> (Inl e, verified)
      | Inr resp \<Rightarrow> parse_response env self resp verified)"

definition update_signature ::
    "web_env \<Rightarrow> web_signing_service_client \<Rightarrow> string \<Rightarrow> (string \<times> string list) list
      \<Rightarrow> (pyerror + signed) \<times> (string \<times> string list) list" where
  "update_signature env self location verified =
     (case http_get env location (req_args_of self) of
        Inl e \<Rightarrow> (Inl e, verified)
      | Inr resp \<Rightarrow> parse_response env self resp verified)"

text \<open>The web client as the signing service of a Signer.\<close>

definition web_backend :: "web_env \<Rightarrow> web_signing_service_client \<Rightarrow> backend" where
  "web_backend env self =
     \<lparr>iss = w_iss self, create = (\<lambda>req. fst (WebSigningServiceClient_create env self req []))\<rparr>"

section \<open>Reading documents\<close>

text \<open>
  The dictionary a document holds under a claim (empty when the claim is absent or is no
  dictionary), and the value it holds for an FO there: \<^verbatim>\<open>doc[attr][f]\<close>.
\<close>

definition dict_at :: "doc \<Rightarrow> string \<Rightarrow> (string, jval) fmap" where
  "dict_at d attr = (case fmlookup d attr of Some (JObj m) \<Rightarrow> m | _ \<Rightarrow> fmempty)"

definition entry :: "doc \<Rightarrow> string \<Rightarrow> string \<Rightarrow> jval option" where
  "entry d attr f = fmlookup (dict_at d attr) f"

text \<open>The claim is absent from the document or holds a dictionary.\<close>

definition dict_or_absent :: "doc \<Rightarrow> string \<Rightarrow> bool" where
  "dict_or_absent d attr =
     (case fmlookup d attr of None \<Rightarrow> True | Some (JObj m) \<Rightarrow> True | Some _ \<Rightarrow> False)"

text \<open>The document that the loop of single mode leaves behind.\<close>

definition merged_document :: "store \<Rightarrow> string list \<Rightarrow> doc \<Rightarrow> doc" where
  "merged_document cms fos req = fst (single_loop cms fos req)"

section \<open>Concrete instances\<close>

text \<open>A web environment whose only token, \<^verbatim>\<open>h.p.s\<close>, is issued by another party.\<close>

definition example_env :: web_env where
  "example_env =
     \<lparr>factory = (\<lambda>t. if t = ''h.p.s'' then Some ''p'' else None),
      json_loads = (\<lambda>s. if s = ''p''
                         then Inr (JObj (fmupd ''iss'' (JStr ''https://other.example.org'') fmempty))
                         else Inl (ValueError ''no JSON'')),
      get_verify_key = (\<lambda>kj owner. Inr [''key-1'']),
      verify_compact = (\<lambda>t ks. Inr ()),
      http_post = (\<lambda>u d a. Inl (ExternalError ''offline'')),
      http_put = (\<lambda>u d a. Inl (ExternalError ''offline'')),
      http_get = (\<lambda>u a. Inl (ExternalError ''offline''))\<rparr>"

definition example_client :: web_signing_service_client where
  "example_client =
     \<lparr>w_url = ''https://sign.example.org'', w_iss = ''https://fo.example.org'',
      w_keyjar = \<lparr>issuer_keys = fmempty\<rparr>, w_token = [], w_token_type = ''Bearer'',
      w_verify_ssl_cert = True\<rparr>"

text \<open>Whether an outcome is the exception \<^verbatim>\<open>SigningServiceError\<close>.\<close>

fun is_SigningServiceError :: "pyerror + 'a \<Rightarrow> bool" where
  "is_SigningServiceError (Inl (SigningServiceError m)) = True"
| "is_SigningServiceError _ = False"

text \<open>
  A signing service that answers every request with one token, a store with a reference
  for FO \<^verbatim>\<open>A\<close> and an inline statement for FO \<^verbatim>\<open>B\<close>, and Signers over them.
\<close>

definition example_backend :: backend where
  "example_backend =
     \<lparr>iss = ''https://fo.example.org'',
      create = (\<lambda>d. Inr \<lparr>sms = ''eyJ.signed'', loc = None\<rparr>)\<rparr>"

definition example_store :: store where
  "example_store = [(''A'', ''http://x/stmtA''), (''B'', ''eyJ.signedB'')]"

definition example_signer :: signer where
  "example_signer =
     \<lparr>signing_service = Some example_backend,
      metadata_statements = fmupd ''discovery'' example_store fmempty,
      def_context = ''discovery''\<rparr>"




definition example_req :: doc where
  "example_req = fmupd ''redirect_uris'' (JArr [JStr ''https://rp.example.org/cb'']) fmempty"

definition start :: world where
  "start = \<lparr>calls = [], logged = []\<rparr>"

definition bare_signer :: signer where
  "bare_signer =
     \<lparr>signing_service = None,
      metadata_statements = fmupd ''discovery'' example_store fmempty,
      def_context = ''discovery''\<rparr>"

definition empty_signer :: signer where
  "empty_signer =
     \<lparr>signing_service = Some example_backend, metadata_statements = fmempty,
      def_context = ''discovery''\<rparr>"

definition example_fs :: fs_env where
  "example_fs =
     \<lparr>listdir = (\<lambda>d. if d = ''/ms'' then Inr [''discovery''] else Inl (ExternalError ''no such directory'')),
      isdir = (\<lambda>p. False),
      FileSystem = (\<lambda>d. [])\<rparr>"

definition carrying_req :: doc where
  "carrying_req =
     fmupd ''metadata_statements'' (JObj (fmupd ''X'' (JStr ''eyJ.own'') fmempty)) fmempty"

definition example_service :: internal_signing_service where
  "example_service =
     InternalSigningService_init ''https://fo.example.org'' \<lparr>issuer_keys = fmempty\<rparr>
       (Some (fmupd ''scope'' (JStr ''add-on'') fmempty))"

definition scope_pack :: packer where
  "scope_pack j payload owner kwargs =
     (case fmlookup payload ''scope'' of Some (JStr s) \<Rightarrow> Inr s | _ \<Rightarrow> Inr ''no scope'')"

definition caller_req :: doc where
  "caller_req = fmupd ''scope'' (JStr ''caller'') (fmupd ''contacts'' (JStr ''ops@rp.example.org'') fmempty)"

section \<open>Facts about finite maps and the loops\<close>

lemma fmupd_not_empty [simp]: "fmupd k v m \<noteq> fmempty" "fmempty \<noteq> fmupd k v m"
  by (metis fmdom_empty fmdom_fmupd finsert_not_fempty)+


lemma example_not_NO_SUPERIOR:
  "fmupd ''discovery'' example_store fmempty \<noteq> NO_SUPERIOR"
proof
  assume "fmupd ''discovery'' example_store fmempty = NO_SUPERIOR"
  then have "fmlookup (fmupd ''discovery'' example_store fmempty) ''response'' =
             fmlookup NO_SUPERIOR ''response''"
    by simp
  then show False by (simp add: NO_SUPERIOR_def)
qed



lemma location_any_case:
  "headers_getitem [(''location'', ''https://sign.example.org/1'')] ''Location'' =
     Inr ''https://sign.example.org/1''"
  "headers_getitem [] ''Location'' = Inl (KeyError ''location'')"
  by (simp_all add: headers_getitem_def lower_def lower_char_def)

lemma attr_of_cases:
  "attr_of v = ''metadata_statement_uris'' \<or> attr_of v = ''metadata_statements''"
  by (simp add: attr_of_def)

lemma add_entry_dict:
  assumes "dict_or_absent req attr"
  shows "add_entry attr f val req =
           Inr (fmupd attr (JObj (fmupd f (JStr val) (dict_at req attr))) req)"
proof (cases "fmlookup req attr")
  case None
  then show ?thesis by (simp add: add_entry_def dict_at_def)
next
  case (Some d)
  with assms obtain m where "d = JObj m"
    by (cases d) (simp_all add: dict_or_absent_def)
  with Some show ?thesis by (simp add: add_entry_def dict_at_def)
qed

lemma dict_or_absent_upd:
  "dict_or_absent req a \<Longrightarrow> dict_or_absent (fmupd attr (JObj m) req) a"
  by (simp add: dict_or_absent_def)

lemma entry_upd:
  "entry (fmupd attr (JObj (fmupd f v (dict_at req attr))) req) a g =
     (if a = attr \<and> g = f then Some v else entry req a g)"
  by (simp add: entry_def dict_at_def)

lemma single_loop_merges:
  assumes "dict_or_absent req ''metadata_statement_uris''"
    and "dict_or_absent req ''metadata_statements''"
  shows "snd (single_loop cms fos req) = None \<and>
         dict_or_absent (fst (single_loop cms fos req)) ''metadata_statement_uris'' \<and>
         dict_or_absent (fst (single_loop cms fos req)) ''metadata_statements'' \<and>
         (\<forall>k. k \<noteq> ''metadata_statement_uris'' \<and> k \<noteq> ''metadata_statements'' \<longrightarrow>
              fmlookup (fst (single_loop cms fos req)) k = fmlookup req k) \<and>
         (\<forall>attr f. entry (fst (single_loop cms fos req)) attr f =
              (case map_of cms f of
                 Some v \<Rightarrow> if f \<in> set fos \<and> attr_of v = attr then Some (JStr v)
                           else entry req attr f
               | None \<Rightarrow> entry req attr f))"
  using assms
proof (induction fos arbitrary: req)
  case Nil
  then show ?case by (simp split: option.splits)
next
  case (Cons f0 fs)
  show ?case
  proof (cases "map_of cms f0")
    case None
    have "\<And>f v. map_of cms f = Some v \<Longrightarrow> f \<in> set (f0 # fs) \<longleftrightarrow> f \<in> set fs"
      using None by auto
    then show ?thesis
      using None Cons.IH [OF Cons.prems] by (simp split: option.splits)
  next
    case (Some val)
    define req1 where
      "req1 = fmupd (attr_of val) (JObj (fmupd f0 (JStr val) (dict_at req (attr_of val)))) req"
    have ok: "dict_or_absent req (attr_of val)"
      using Cons.prems attr_of_cases [of val] by auto
    have step: "single_loop cms (f0 # fs) req = single_loop cms fs req1"
      using Some add_entry_dict [OF ok] by (simp add: req1_def)
    have d1: "dict_or_absent req1 ''metadata_statement_uris''"
      and d2: "dict_or_absent req1 ''metadata_statements''"
      using Cons.prems by (simp_all add: req1_def dict_or_absent_upd)
    have other: "\<And>k. k \<noteq> ''metadata_statement_uris'' \<and> k \<noteq> ''metadata_statements'' \<Longrightarrow>
                   fmlookup req1 k = fmlookup req k"
      using attr_of_cases [of val] by (auto simp: req1_def)
    have e1: "\<And>a g. entry req1 a g = (if a = attr_of val \<and> g = f0 then Some (JStr val) else entry req a g)"
      by (simp add: req1_def entry_upd)
    note IH = Cons.IH [OF d1 d2]
    show ?thesis
      unfolding step using IH Some other by (auto simp: e1 split: option.splits)
  qed
qed




lemma init_from_listing_no_directories:
  assumes "\<forall>item \<in> set names. item \<in> set CONTEXTS \<and> \<not> isdir fs (path_join p item)"
  shows "init_from_listing CONTEXTS fs p names ms = Inr ms"
  using assms by (induction names) simp_all



lemma single_loop_no_match:
  "\<forall>f \<in> set fos. map_of cms f = None \<Longrightarrow> single_loop cms fos req = (req, None)"
  by (induction fos) simp_all

lemma fanout_loop_no_match:
  "\<forall>f \<in> set fos. map_of cms f = None \<Longrightarrow>
   fanout_loop ss cms fos req acc w = (None, req, acc, w)"
  by (induction fos) simp_all

lemma fanout_without_match_raises:
  assumes "fmlookup (metadata_statements self) (resolve_context self context) = Some cms"
    and "cms \<noteq> []" and "fos \<noteq> []" and "\<forall>f \<in> set fos. map_of cms f = None"
  shows "create_signed_metadata_statement self req context (Some fos) False w =
           (Inl (KeyError ''No metadata statements matched''), req, w)"
proof -
  have "metadata_statements self \<noteq> fmempty"
    using assms(1) by auto
  then show ?thesis
    using assms
    by (simp add: create_signed_metadata_statement_def Let_def fo_list_def fanout_loop_no_match)
qed

lemma single_without_match_signs:
  assumes "fmlookup (metadata_statements self) (resolve_context self context) = Some cms"
    and "cms \<noteq> []" and "\<forall>f \<in> set fos. map_of cms f = None"
    and "signing_service self = Some b" and "create b req = Inr res" and "sms res \<noteq> []"
  shows "create_signed_metadata_statement self req context (Some fos) True w =
           (Inr (RStr (sms res)), req, w\<lparr>calls := calls w @ [req]\<rparr>)"
proof -
  have "metadata_statements self \<noteq> fmempty"
    using assms(1) by auto
  then show ?thesis
    using assms
    by (simp add: create_signed_metadata_statement_def Let_def fo_list_def single_loop_no_match
          service_create_def)
qed

lemma fanout_loop_fresh_document:
  assumes "fmlookup req ''metadata_statement_uris'' = None"
    and "fmlookup req ''metadata_statements'' = None"
    and "\<And>d. \<exists>res. create b d = Inr res"
  shows "\<exists>acc' w'. fanout_loop (Some b) cms fos req acc w = (None, req, acc', w') \<and>
           fmdom acc' = fmdom acc |\<union>| fset_of_list [f \<leftarrow> fos. map_of cms f \<noteq> None] \<and>
           logged w' = logged w \<and>
           calls w' = calls w @
             List.map_filter
               (\<lambda>f. map_option (\<lambda>v. fmupd (attr_of v) (JObj (fmupd f (JStr v) fmempty)) req)
                      (map_of cms f)) fos"
proof (induction fos arbitrary: acc w)
  case Nil
  then show ?case by (simp add: List.map_filter_simps)
next
  case (Cons f fs)
  show ?case
  proof (cases "map_of cms f")
    case None
    then show ?thesis
      using Cons.IH [of acc w] by (simp add: List.map_filter_simps)
  next
    case (Some v)
    define req1 where "req1 = fmupd (attr_of v) (JObj (fmupd f (JStr v) fmempty)) req"
    obtain res where res: "create b req1 = Inr res"
      using assms(3) by blast
    have "fmlookup req (attr_of v) = None"
      using assms(1,2) attr_of_cases [of v] by auto
    then have restored: "fmdrop (attr_of v) req1 = req"
      by (simp add: req1_def fmdrop_fmupd_same fmdrop_idle fmdom_notI)
    have step: "fanout_loop (Some b) cms (f # fs) req acc w =
        fanout_loop (Some b) cms fs req (fmupd f (sms res) acc) (w\<lparr>calls := calls w @ [req1]\<rparr>)"
      using Some res restored by (simp add: service_create_def req1_def [symmetric] Let_def)
    show ?thesis
      unfolding step
      using Cons.IH [of "fmupd f (sms res) acc" "w\<lparr>calls := calls w @ [req1]\<rparr>"] Some
      by (auto simp: List.map_filter_simps req1_def)
  qed
qed

lemma attr_kinds:
  "attr_of ''http://x/stmtA'' = ''metadata_statement_uris''"
  "attr_of ''eyJ.signedB'' = ''metadata_statements''"
  by (simp_all add: attr_of_def startswith_def)

lemma example_lookups:
  "map_of example_store ''A'' = Some ''http://x/stmtA''"
  "map_of example_store ''B'' = Some ''eyJ.signedB''"
  "map_of example_store ''C'' = None"
  by (simp_all add: example_store_def)

lemma example_create: "create example_backend d = Inr \<lparr>sms = ''eyJ.signed'', loc = None\<rparr>"
  by (simp add: example_backend_def)

lemma carrying_req_drops:
  "fmdrop ''metadata_statement_uris'' carrying_req = carrying_req"
  "fmdrop ''metadata_statements'' carrying_req = fmempty"
  by (simp_all add: carrying_req_def fmdrop_fmupd)

lemma second_call:
  "fmupd ''metadata_statements'' v carrying_req = fmupd ''metadata_statements'' v fmempty"
  by (simp add: carrying_req_def)

lemma fanout_example:
  "fanout_loop (Some example_backend) example_store [''A'', ''B''] carrying_req fmempty start =
     (None, fmempty, fmupd ''B'' ''eyJ.signed'' (fmupd ''A'' ''eyJ.signed'' fmempty),
      \<lparr>calls =
         [fmupd ''metadata_statement_uris'' (JObj (fmupd ''A'' (JStr ''http://x/stmtA'') fmempty))
            carrying_req,
          fmupd ''metadata_statements'' (JObj (fmupd ''B'' (JStr ''eyJ.signedB'') fmempty))
            fmempty],
       logged = []\<rparr>)"
  by (simp add: example_lookups attr_kinds service_create_def example_create carrying_req_drops
        second_call start_def Let_def fmdrop_fmupd_same)

lemma signed_payload_lookup:
  "fmlookup (signed_payload self req) k =
     (case fmlookup (i_add_ons self) k of Some a \<Rightarrow> Some a | None \<Rightarrow> fmlookup req k)"
proof (cases "i_add_ons self = fmempty")
  case True
  then show ?thesis by (simp add: signed_payload_def)
next
  case False
  then show ?thesis
    by (cases "fmlookup (i_add_ons self) k") (auto simp: signed_payload_def fmdom_notI fmdomI)
qed

section \<open>Responses of the web signing service\<close>

lemma str_int_404: "str_int 404 = ''404''"
  by (simp add: str_int_def digits.simps)

text \<open>
  C7. A response whose status code is outside [200, 300) makes \<^verbatim>\<open>parse_response\<close> raise
  SigningServiceError with the message \<^verbatim>\<open>"<status code>: <body>"\<close>; nothing is
  returned and nothing is verified.
\<close>

theorem parse_response_rejects_status:
  assumes "\<not> (200 \<le> status_code resp \<and> status_code resp < 300)"
  shows "parse_response env self resp verified =
           (Inl (SigningServiceError (str_int (status_code resp) @ '': '' @ resp_text resp)),
            verified)"
proof -
  have out: "(200 \<le> status_code resp \<and> status_code resp < 300) = False"
    using assms by simp
  show ?thesis
    unfolding parse_response_def by (simp only: out if_False)
qed

theorem parse_response_rejects_status_witness:
  "parse_response example_env example_client
     \<lparr>status_code = 404, resp_text = ''not found'', headers = []\<rparr> [] =
     (Inl (SigningServiceError ''404: not found''), [])"
  using parse_response_rejects_status
          [of "\<lparr>status_code = 404, resp_text = ''not found'', headers = []\<rparr>"
              example_env example_client "[]"]
  by (simp add: str_int_404)

text \<open>
  C1, as the code has it. A response with a status in [200, 300) whose decoded payload
  carries an issuer other than the client's is rejected by the \<^verbatim>\<open>assert\<close> of line 134:
  the exception is AssertionError, and \<^verbatim>\<open>verify_compact\<close> has not been called.
\<close>

theorem parse_response_issuer_mismatch:
  assumes "200 \<le> status_code resp" and "status_code resp < 300"
    and "factory env (resp_text resp) = Some part1"
    and "json_loads env part1 = Inr body"
    and "getitem body ''iss'' = Inr claimed"
    and "claimed \<noteq> JStr (w_iss self)"
  shows "parse_response env self resp verified = (Inl AssertionError, verified)"
  using assms by (simp add: parse_response_def)

theorem parse_response_issuer_mismatch_witness:
  "parse_response example_env example_client
     \<lparr>status_code = 200, resp_text = ''h.p.s'', headers = []\<rparr> [] =
     (Inl AssertionError, [])"
  using parse_response_issuer_mismatch
    [of "\<lparr>status_code = 200, resp_text = ''h.p.s'', headers = []\<rparr>" example_env
        "''p''" "JObj (fmupd ''iss'' (JStr ''https://other.example.org'') fmempty)"
        "JStr ''https://other.example.org''" example_client "[]"]
  by (simp add: example_env_def example_client_def)

text \<open>
  C1 as stated fails: on the response below, in range and issued by another party, the
  exception raised is not a SigningServiceError.
\<close>

theorem parse_response_issuer_mismatch_not_signing_service_error:
  "fst (parse_response example_env example_client
          \<lparr>status_code = 200, resp_text = ''h.p.s'', headers = []\<rparr> []) =
     Inl AssertionError \<and>
   \<not> is_SigningServiceError
       (fst (parse_response example_env example_client
          \<lparr>status_code = 200, resp_text = ''h.p.s'', headers = []\<rparr> []))"
  by (simp add: parse_response_def example_env_def example_client_def)

section \<open>The internal signing service merges its add-ons\<close>

text \<open>
  C3, as the code has it. The internal service hands \<^verbatim>\<open>pack\<close> its updated copy of the
  request, in which every add-on stands under its name: an add-on replaces a claim of
  the same name that the caller supplied, and the claims no add-on names are the caller's.
\<close>

theorem add_ons_override_request_claims:
  "InternalSigningService_create pack self req kwargs =
     (case pack \<lparr>jwt_keyjar = i_signing_keys self, jwt_iss = i_iss self,
                  jwt_lifetime = i_lifetime self, jwt_sign_alg = i_alg self\<rparr>
             (signed_payload self req)
             (if i_iss self |\<in>| fmdom (issuer_keys (i_signing_keys self)) then i_iss self else [])
             kwargs of
        Inl e \<Rightarrow> Inl e
      | Inr token \<Rightarrow> Inr \<lparr>sms = token, loc = None\<rparr>) \<and>
   (\<forall>k. fmlookup (signed_payload self req) k =
      (case fmlookup (i_add_ons self) k of Some a \<Rightarrow> Some a | None \<Rightarrow> fmlookup req k))"
proof -
  have "InternalSigningService_create pack self req kwargs =
     (case pack \<lparr>jwt_keyjar = i_signing_keys self, jwt_iss = i_iss self,
                  jwt_lifetime = i_lifetime self, jwt_sign_alg = i_alg self\<rparr>
             (signed_payload self req)
             (if i_iss self |\<in>| fmdom (issuer_keys (i_signing_keys self)) then i_iss self else [])
             kwargs of
        Inl e \<Rightarrow> Inl e
      | Inr token \<Rightarrow> Inr \<lparr>sms = token, loc = None\<rparr>)"
    by (cases "kwargs = fmempty") (simp_all add: InternalSigningService_create_def Let_def)
  then show ?thesis
    using signed_payload_lookup by simp
qed

theorem add_ons_override_request_claims_witness:
  "InternalSigningService_create scope_pack example_service caller_req fmempty =
     Inr \<lparr>sms = ''add-on'', loc = None\<rparr> \<and>
   fmlookup (signed_payload example_service caller_req) ''scope'' = Some (JStr ''add-on'') \<and>
   fmlookup (signed_payload example_service caller_req) ''contacts'' =
     Some (JStr ''ops@rp.example.org'')"
  using add_ons_override_request_claims [of scope_pack example_service caller_req fmempty]
  by (simp add: example_service_def InternalSigningService_init_def caller_req_def scope_pack_def)

text \<open>
  C3 as stated fails: the caller's \<^verbatim>\<open>scope\<close> is replaced by the add-on of that name in
  the payload that is signed.
\<close>

theorem add_on_replaces_caller_claim:
  "fmlookup caller_req ''scope'' = Some (JStr ''caller'') \<and>
   fmlookup (signed_payload example_service caller_req) ''scope'' = Some (JStr ''add-on'') \<and>
   InternalSigningService_create scope_pack example_service caller_req fmempty =
     Inr \<lparr>sms = ''add-on'', loc = None\<rparr>"
  by (simp add: example_service_def InternalSigningService_init_def caller_req_def scope_pack_def
        signed_payload_def InternalSigningService_create_def)

section \<open>The Signer without superiors\<close>




text \<open>
  C10. A Signer whose dictionary of stores is empty returns None for every request and
  context: the signing service is not called, nothing is logged, nothing is raised and
  the request is unchanged.
\<close>

theorem empty_mapping_returns_None:
  assumes "metadata_statements self = fmempty"
  shows "create_signed_metadata_statement self req context fos single w = (Inr RNone, req, w)"
  using assms by (simp add: create_signed_metadata_statement_def)

theorem empty_mapping_returns_None_witness:
  "Signer_init [''registration'', ''discovery'', ''response''] NO_SUPERIOR example_fs
     (Some example_backend) (MsPath ''/ms'') ''discovery'' = Inr empty_signer \<and>
   create_signed_metadata_statement empty_signer example_req [] None False start =
     (Inr RNone, example_req, start) \<and>
   create_signed_metadata_statement empty_signer example_req ''response'' (Some [''A'']) True start =
     (Inr RNone, example_req, start)"
proof -
  have built: "Signer_init [''registration'', ''discovery'', ''response''] NO_SUPERIOR example_fs
     (Some example_backend) (MsPath ''/ms'') ''discovery'' = Inr empty_signer"
    by (simp add: Signer_init_def example_fs_def empty_signer_def)
  have empty: "metadata_statements empty_signer = fmempty"
    by (simp add: empty_signer_def)
  show ?thesis
    using built empty_mapping_returns_None [OF empty, of example_req "[]" None False start]
      empty_mapping_returns_None [OF empty, of example_req "''response''" "Some [''A'']" True start]
    by simp
qed

section \<open>A context the Signer has no store for\<close>

text \<open>
  C8, as the code has it. A Signer whose dictionary of stores is not empty, is not the
  dictionary of three empty contexts and has no store for the resolved context fails
  without calling its signing service. With a signing service it logs its contexts with
  their FO ids, then the missing context, and raises KeyError with the context; without
  one it raises SigningServiceError and logs nothing.
\<close>

theorem unknown_context_fails:
  assumes "metadata_statements self \<noteq> fmempty"
    and "metadata_statements self \<noteq> NO_SUPERIOR"
    and "fmlookup (metadata_statements self) (resolve_context self context) = None"
  shows "create_signed_metadata_statement self req context fos single w =
           (case signing_service self of
              None \<Rightarrow>
                (Inl (SigningServiceError ''This signer can not sign for that context''), req, w)
            | Some b \<Rightarrow>
                (Inl (KeyError (resolve_context self context)), req,
                 w\<lparr>logged := logged w @
                      [SignerItems (iss b) (items self),
                       NoStatementsForContext (resolve_context self context)]\<rparr>))"
  using assms
  by (simp add: create_signed_metadata_statement_def Let_def service_iss_def
           split: option.splits)

theorem unknown_context_fails_witness:
  "create_signed_metadata_statement example_signer example_req ''response'' None False start =
     (Inl (KeyError ''response''), example_req,
      \<lparr>calls = [],
       logged = [SignerItems ''https://fo.example.org'' (fmupd ''discovery'' [''A'', ''B''] fmempty),
                 NoStatementsForContext ''response'']\<rparr>)"
proof -
  have a: "metadata_statements example_signer \<noteq> fmempty"
    by (simp add: example_signer_def)
  have b: "metadata_statements example_signer \<noteq> NO_SUPERIOR"
    using example_not_NO_SUPERIOR by (simp add: example_signer_def)
  have c: "fmlookup (metadata_statements example_signer)
             (resolve_context example_signer ''response'') = None"
    by (simp add: example_signer_def resolve_context_def)
  have i: "items example_signer = fmupd ''discovery'' [''A'', ''B''] fmempty"
    by (rule fmap_ext) (simp add: items_def example_signer_def example_store_def)
  show ?thesis
    using unknown_context_fails [OF a b c, of example_req None False start] i
    by (simp add: example_signer_def example_backend_def start_def resolve_context_def)
qed

text \<open>
  C8 as stated fails twice: a Signer with an empty dictionary of stores has no store for
  the context and returns None, and a Signer without signing service raises before any
  record is logged.
\<close>

theorem unknown_context_silent_or_unlogged:
  "fst (create_signed_metadata_statement empty_signer example_req ''response'' None False start) =
     Inr RNone \<and>
   create_signed_metadata_statement bare_signer example_req ''response'' None False start =
     (Inl (SigningServiceError ''This signer can not sign for that context''), example_req,
      \<lparr>calls = [], logged = []\<rparr>)"
  using example_not_NO_SUPERIOR
  by (simp add: create_signed_metadata_statement_def empty_signer_def bare_signer_def
        resolve_context_def service_iss_def start_def)

section \<open>Single mode\<close>

text \<open>
  C5. With a store for the resolved context that is not empty, a signing service, and a
  request whose claims \<^verbatim>\<open>metadata_statement_uris\<close> and \<^verbatim>\<open>metadata_statements\<close> are
  absent or dictionaries, single mode leaves the merged document in the request, calls
  the signing service exactly once, on the merged document, and returns the token it
  signs (when the service signs one, not empty). In the merged document every listed FO
  with a stored value stands under \<^verbatim>\<open>metadata_statement_uris\<close> when the value starts
  with \<^verbatim>\<open>http\<close> and under \<^verbatim>\<open>metadata_statements\<close> otherwise; every other entry and
  every other claim is the request's.
\<close>

theorem single_mode_signs_merged_document:
  assumes store: "fmlookup (metadata_statements self) (resolve_context self context) = Some cms"
    and nonempty: "cms \<noteq> []"
    and svc: "signing_service self = Some b"
    and uris: "dict_or_absent req ''metadata_statement_uris''"
    and stmts: "dict_or_absent req ''metadata_statements''"
  shows "(let fos = fo_list cms fos0;
              merged = merged_document cms fos req;
              out = create_signed_metadata_statement self req context fos0 True w
          in fst (snd out) = merged \<and>
             snd (snd out) = w\<lparr>calls := calls w @ [merged]\<rparr> \<and>
             (\<forall>res. create b merged = Inr res \<and> sms res \<noteq> [] \<longrightarrow> fst out = Inr (RStr (sms res))) \<and>
             (\<forall>f v. f \<in> set fos \<and> map_of cms f = Some v \<longrightarrow>
                (if startswith v ''http''
                 then entry merged ''metadata_statement_uris'' f = Some (JStr v)
                 else entry merged ''metadata_statements'' f = Some (JStr v))) \<and>
             (\<forall>attr f. \<not> (f \<in> set fos \<and> (\<exists>v. map_of cms f = Some v \<and> attr_of v = attr)) \<longrightarrow>
                entry merged attr f = entry req attr f) \<and>
             (\<forall>k. k \<noteq> ''metadata_statement_uris'' \<and> k \<noteq> ''metadata_statements'' \<longrightarrow>
                fmlookup merged k = fmlookup req k))"
proof -
  define fos where "fos = fo_list cms fos0"
  define merged where "merged = merged_document cms fos req"
  note loop = single_loop_merges [OF uris stmts, of cms fos]
  have sl: "single_loop cms fos req = (merged, None)"
    using loop by (simp add: merged_def merged_document_def prod_eq_iff)
  have ne: "metadata_statements self \<noteq> fmempty"
    using store by auto
  have out: "create_signed_metadata_statement self req context fos0 True w =
      ((case create b merged of
          Inl e \<Rightarrow> Inl e
        | Inr res \<Rightarrow> if fos \<noteq> [] \<and> sms res = []
                     then Inl (KeyError ''No metadata statements matched'')
                     else Inr (RStr (sms res))),
       merged, w\<lparr>calls := calls w @ [merged]\<rparr>)"
    using store nonempty svc ne sl
    by (simp add: create_signed_metadata_statement_def Let_def fos_def [symmetric]
          service_create_def split: sum.splits)
  have entries: "\<And>attr f. entry merged attr f =
      (case map_of cms f of
         Some v \<Rightarrow> if f \<in> set fos \<and> attr_of v = attr then Some (JStr v) else entry req attr f
       | None \<Rightarrow> entry req attr f)"
    using loop unfolding merged_def merged_document_def by blast
  have others: "\<And>k. k \<noteq> ''metadata_statement_uris'' \<and> k \<noteq> ''metadata_statements'' \<Longrightarrow>
      fmlookup merged k = fmlookup req k"
    using loop unfolding merged_def merged_document_def by blast
  have placed: "(if startswith v ''http''
       then entry merged ''metadata_statement_uris'' f = Some (JStr v)
       else entry merged ''metadata_statements'' f = Some (JStr v))"
    if "f \<in> set fos \<and> map_of cms f = Some v" for f v
    using that by (simp add: entries attr_of_def)
  have kept: "entry merged attr f = entry req attr f"
    if "\<not> (f \<in> set fos \<and> (\<exists>v. map_of cms f = Some v \<and> attr_of v = attr))" for attr f
    using that by (cases "map_of cms f") (auto simp: entries)
  have signed: "fst (create_signed_metadata_statement self req context fos0 True w) =
      Inr (RStr (sms res))"
    if "create b merged = Inr res \<and> sms res \<noteq> []" for res
    using that by (simp add: out)
  show ?thesis
    unfolding Let_def fos_def [symmetric] merged_def [symmetric]
    using placed kept others signed by (simp add: out)
qed


theorem single_mode_signs_merged_document_witness:
  "create_signed_metadata_statement example_signer example_req [] None True start =
     (Inr (RStr ''eyJ.signed''),
      merged_document example_store [''A'', ''B''] example_req,
      \<lparr>calls = [merged_document example_store [''A'', ''B''] example_req], logged = []\<rparr>) \<and>
   entry (merged_document example_store [''A'', ''B''] example_req)
     ''metadata_statement_uris'' ''A'' = Some (JStr ''http://x/stmtA'') \<and>
   entry (merged_document example_store [''A'', ''B''] example_req)
     ''metadata_statements'' ''B'' = Some (JStr ''eyJ.signedB'') \<and>
   entry (merged_document example_store [''A'', ''B''] example_req)
     ''metadata_statements'' ''A'' = None \<and>
   fmlookup (merged_document example_store [''A'', ''B''] example_req) ''redirect_uris'' =
     Some (JArr [JStr ''https://rp.example.org/cb''])"
proof -
  have store: "fmlookup (metadata_statements example_signer)
                 (resolve_context example_signer []) = Some example_store"
    by (simp add: example_signer_def resolve_context_def)
  have nonempty: "example_store \<noteq> []"
    by (simp add: example_store_def)
  have svc: "signing_service example_signer = Some example_backend"
    by (simp add: example_signer_def)
  have uris: "dict_or_absent example_req ''metadata_statement_uris''"
    and stmts: "dict_or_absent example_req ''metadata_statements''"
    by (simp_all add: dict_or_absent_def example_req_def)
  have fos: "fo_list example_store None = [''A'', ''B'']"
    by (simp add: fo_list_def example_store_def)
  have token: "create example_backend d = Inr \<lparr>sms = ''eyJ.signed'', loc = None\<rparr>" for d
    by (simp add: example_backend_def)
  have lookups: "map_of example_store ''A'' = Some ''http://x/stmtA''"
    "map_of example_store ''B'' = Some ''eyJ.signedB''"
    by (simp_all add: example_store_def)
  have kinds: "startswith ''http://x/stmtA'' ''http''" "\<not> startswith ''eyJ.signedB'' ''http''"
    "attr_of ''http://x/stmtA'' = ''metadata_statement_uris''"
    by (simp_all add: startswith_def attr_of_def)
  have absent: "entry example_req ''metadata_statements'' ''A'' = None"
    "fmlookup example_req ''redirect_uris'' = Some (JArr [JStr ''https://rp.example.org/cb''])"
    by (simp_all add: entry_def dict_at_def example_req_def)
  note inst = single_mode_signs_merged_document
      [OF store nonempty svc uris stmts, of None start, unfolded Let_def fos]
  have out: "create_signed_metadata_statement example_signer example_req [] None True start =
     (Inr (RStr ''eyJ.signed''),
      merged_document example_store [''A'', ''B''] example_req,
      \<lparr>calls = [merged_document example_store [''A'', ''B''] example_req], logged = []\<rparr>)"
    using inst token [of "merged_document example_store [''A'', ''B''] example_req"]
    by (simp add: prod_eq_iff start_def)
  have a: "entry (merged_document example_store [''A'', ''B''] example_req)
     ''metadata_statement_uris'' ''A'' = Some (JStr ''http://x/stmtA'')"
    using inst lookups(1) kinds(1) by (metis list.set_intros(1))
  have b: "entry (merged_document example_store [''A'', ''B''] example_req)
     ''metadata_statements'' ''B'' = Some (JStr ''eyJ.signedB'')"
    using inst lookups(2) kinds(2) by (metis list.set_intros(1) list.set_intros(2))
  have "\<not> (''A'' \<in> set [''A'', ''B''] \<and>
            (\<exists>v. map_of example_store ''A'' = Some v \<and> attr_of v = ''metadata_statements''))"
    using lookups(1) kinds(3) by simp
  then have c: "entry (merged_document example_store [''A'', ''B''] example_req)
     ''metadata_statements'' ''A'' = None"
    using inst absent(1) by metis
  have d: "fmlookup (merged_document example_store [''A'', ''B''] example_req) ''redirect_uris'' =
     Some (JArr [JStr ''https://rp.example.org/cb''])"
    using inst absent(2) by simp
  show ?thesis using out a b c d by simp
qed

text \<open>
  C2 on the code: with the explicit list \<^verbatim>\<open>['C']\<close>, an FO the store has no value
  for, fan-out mode raises KeyError, while single mode calls the signing service on the
  unmerged request and returns its token.
\<close>

theorem single_mode_signs_without_match:
  "create_signed_metadata_statement example_signer example_req ''discovery'' (Some [''C'']) True
     start =
     (Inr (RStr ''eyJ.signed''), example_req, \<lparr>calls = [example_req], logged = []\<rparr>) \<and>
   create_signed_metadata_statement example_signer example_req ''discovery'' (Some [''C'']) False
     start =
     (Inl (KeyError ''No metadata statements matched''), example_req,
      \<lparr>calls = [], logged = []\<rparr>)"
  by (simp add: create_signed_metadata_statement_def example_signer_def example_store_def
        resolve_context_def fo_list_def service_create_def example_backend_def start_def)

section \<open>Fan-out mode\<close>

text \<open>
  C6 on the code: a request that carries \<^verbatim>\<open>metadata_statements\<close> of its own goes
  through fan-out mode over the FOs \<^verbatim>\<open>A\<close> (a reference) and \<^verbatim>\<open>B\<close> (inline). The
  call for \<^verbatim>\<open>B\<close> signs a document in which the carried claim is replaced, and the
  request comes back without the claim.
\<close>

theorem fanout_drops_carried_statements:
  "create_signed_metadata_statement example_signer carrying_req ''discovery'' None False start =
     (Inr (RMap (fmupd ''B'' ''eyJ.signed'' (fmupd ''A'' ''eyJ.signed'' fmempty))),
      fmempty,
      \<lparr>calls =
         [fmupd ''metadata_statement_uris'' (JObj (fmupd ''A'' (JStr ''http://x/stmtA'') fmempty))
            carrying_req,
          fmupd ''metadata_statements'' (JObj (fmupd ''B'' (JStr ''eyJ.signedB'') fmempty))
            fmempty],
       logged = []\<rparr>) \<and>
   carrying_req \<noteq> fmempty"
proof -
  have fos: "fo_list example_store None = [''A'', ''B'']"
    by (simp add: fo_list_def example_store_def)
  have store: "fmlookup (metadata_statements example_signer)
      (resolve_context example_signer ''discovery'') = Some example_store"
    "metadata_statements example_signer \<noteq> fmempty" "example_store \<noteq> []"
    "signing_service example_signer = Some example_backend"
    by (simp_all add: example_signer_def resolve_context_def example_store_def)
  have "carrying_req \<noteq> fmempty"
    by (simp add: carrying_req_def)
  then show ?thesis
    by (simp add: create_signed_metadata_statement_def Let_def store fos fanout_example
          del: fanout_loop.simps)
qed

section \<open>Gathering without signing\<close>




end
